theory Spec2Isabelle
  imports Complex_Main
begin

section \<open>Dates, times and the configuration\<close>

text \<open>
  The bot computes with \<^verbatim>\<open>datetime\<close> values localised to one business time zone
  (\<^verbatim>\<open>TIMEZONE\<close>, by default America/Caracas, a zone with a constant offset and no
  daylight saving). All values that are compared are first brought to that zone by
  \<^verbatim>\<open>ensure_tz\<close>, so the model works on the wall clock of that zone:

  \<^item> a \<^verbatim>\<open>date\<close> is its proleptic Gregorian ordinal (\<^verbatim>\<open>date.toordinal()\<close>);
  \<^item> a \<^verbatim>\<open>datetime\<close> is the number of minutes since ordinal 0, midnight
    (every time stamp the bot creates is a whole minute);
  \<^item> a \<^verbatim>\<open>timedelta\<close> is a number of minutes.

  \<^verbatim>\<open>datetime.time(hour, minute)\<close> raises \<^verbatim>\<open>ValueError\<close> outside 0..23 and 0..59;
  the model returns the error as a value.
\<close>

type_synonym date = int
type_synonym datetime = int



definition combine :: "date \<Rightarrow> int \<Rightarrow> datetime" where
  "combine date_obj t = date_obj * 1440 + t"

definition date_of :: "datetime \<Rightarrow> date" where
  "date_of dt = dt div 1440"



text \<open>\<^verbatim>\<open>dtime.min\<close> is 00:00 and \<^verbatim>\<open>dtime.max\<close> is the last instant of the day, 23:59 at the
  resolution of the model.\<close>

definition dtime_min :: int where
  "dtime_min = 0"

definition dtime_max :: int where
  "dtime_max = 1439"


section \<open>Strings\<close>

text \<open>
  Python strings are sequences of Unicode code points. The model covers the texts
  over the Latin-1 repertoire (code points 0 to 255), which holds the Spanish alphabet:
  a \<^typ>\<open>char\<close> is one code point, so \<open>CHR 0xF1\<close> is the letter n with tilde and
  \<^const>\<open>length\<close> counts code points. On this repertoire the character classes of
  \<^verbatim>\<open>str.lower\<close>, \<^verbatim>\<open>str.split\<close>, \<^verbatim>\<open>str.strip\<close> and of the \<^verbatim>\<open>re\<close> module
  (\<^verbatim>\<open>\d\<close>, \<^verbatim>\<open>\s\<close>, \<^verbatim>\<open>\w\<close>) are the finite tables written out below.
\<close>

definition code :: "char \<Rightarrow> nat" where
  "code c = of_char c"

definition is_digit :: "char \<Rightarrow> bool" where
  "is_digit c = (48 \<le> code c \<and> code c \<le> 57)"

definition is_space :: "char \<Rightarrow> bool" where
  "is_space c =
     (let n = code c in (9 \<le> n \<and> n \<le> 13) \<or> (28 \<le> n \<and> n \<le> 32) \<or> n = 133 \<or> n = 160)"

definition is_upper_alpha :: "char \<Rightarrow> bool" where
  "is_upper_alpha c = (65 \<le> code c \<and> code c \<le> 90)"

definition is_lower_alpha :: "char \<Rightarrow> bool" where
  "is_lower_alpha c = (97 \<le> code c \<and> code c \<le> 122)"

definition is_word :: "char \<Rightarrow> bool" where
  "is_word c =
     (let n = code c in
        is_digit c \<or> is_upper_alpha c \<or> n = 95 \<or> is_lower_alpha c \<or>
        n = 170 \<or> n = 178 \<or> n = 179 \<or> n = 181 \<or> n = 185 \<or> n = 186 \<or>
        (188 \<le> n \<and> n \<le> 190) \<or> (192 \<le> n \<and> n \<le> 214) \<or>
        (216 \<le> n \<and> n \<le> 246) \<or> 248 \<le> n)"

definition lower_char :: "char \<Rightarrow> char" where
  "lower_char c =
     (let n = code c in
        if (65 \<le> n \<and> n \<le> 90) \<or> (192 \<le> n \<and> n \<le> 214) \<or> (216 \<le> n \<and> n \<le> 222)
        then char_of (n + 32) else c)"

definition py_lower :: "string \<Rightarrow> string" where
  "py_lower s = map lower_char s"

text \<open>\<^verbatim>\<open>sub in s\<close>: \<open>sub\<close> occurs in \<open>s\<close> as a contiguous substring.\<close>

fun py_in :: "string \<Rightarrow> string \<Rightarrow> bool" where
  "py_in sub [] = (sub = [])"
| "py_in sub (x # xs) = (take (length sub) (x # xs) = sub \<or> py_in sub xs)"

text \<open>\<^verbatim>\<open>s.split()\<close>: the maximal runs of non-whitespace characters, in order.\<close>

fun split_loop :: "string \<Rightarrow> string \<Rightarrow> string list" where
  "split_loop cur [] = (if cur = [] then [] else [cur])"
| "split_loop cur (x # xs) =
     (if is_space x then (if cur = [] then split_loop [] xs else cur # split_loop [] xs)
      else split_loop (cur @ [x]) xs)"

definition py_split :: "string \<Rightarrow> string list" where
  "py_split s = split_loop [] s"

definition py_strip :: "string \<Rightarrow> string" where
  "py_strip s = rev (dropWhile is_space (rev (dropWhile is_space s)))"

text \<open>\<^verbatim>\<open>int(s)\<close> on a string of decimal digits.\<close>

definition digit_val :: "char \<Rightarrow> int" where
  "digit_val c = int (code c) - 48"

definition py_int :: "string \<Rightarrow> int" where
  "py_int s = foldl (\<lambda>n c. 10 * n + digit_val c) 0 s"

section \<open>Regular expressions\<close>

text \<open>
  The patterns of the bot are sequences of literals, greedy repetitions of a character
  class, word boundaries, alternatives of literal words and the end anchor. The matcher
  follows the backtracking order of Python's \<^verbatim>\<open>re\<close>: a greedy repetition tries the
  longest run first and gives characters back one at a time, alternatives are tried from
  left to right, and \<^verbatim>\<open>re.search\<close> returns the match at the leftmost position that
  has one. A match returns its captured groups, in order.
\<close>

datatype atom =
    Lit char
  | Rpt "char \<Rightarrow> bool" nat "nat option" bool
  | Bnd
  | Alts "string list"
  | Eos

fun first_some :: "('a \<Rightarrow> 'b option) \<Rightarrow> 'a list \<Rightarrow> 'b option" where
  "first_some f [] = None"
| "first_some f (x # xs) = (case f x of Some y \<Rightarrow> Some y | None \<Rightarrow> first_some f xs)"

definition word_boundary :: "char option \<Rightarrow> string \<Rightarrow> bool" where
  "word_boundary prev rest =
     ((case prev of None \<Rightarrow> False | Some c \<Rightarrow> is_word c) \<noteq>
      (case rest of [] \<Rightarrow> False | c # _ \<Rightarrow> is_word c))"

definition prev_after :: "char option \<Rightarrow> string \<Rightarrow> nat \<Rightarrow> char option" where
  "prev_after prev rest k = (if k = 0 then prev else Some (last (take k rest)))"

fun rx_match :: "atom list \<Rightarrow> char option \<Rightarrow> string \<Rightarrow> string list \<Rightarrow> string list option" where
  "rx_match [] prev rest caps = Some caps"
| "rx_match (Lit c # as) prev rest caps =
     (case rest of
        [] \<Rightarrow> None
      | x # xs \<Rightarrow> if x = c then rx_match as (Some x) xs caps else None)"
| "rx_match (Bnd # as) prev rest caps =
     (if word_boundary prev rest then rx_match as prev rest caps else None)"
| "rx_match (Eos # as) prev rest caps =
     (if rest = [] \<or> rest = [CHR 0x0A] then rx_match as prev rest caps else None)"
| "rx_match (Alts ws # as) prev rest caps =
     first_some
       (\<lambda>w. if take (length w) rest = w
            then rx_match as (prev_after prev rest (length w)) (drop (length w) rest) (caps @ [w])
            else None)
       ws"
| "rx_match (Rpt cls lo hi cap # as) prev rest caps =
     (let run = length (takeWhile cls rest);
          top = (case hi of None \<Rightarrow> run | Some h \<Rightarrow> min h run)
      in first_some
           (\<lambda>k. rx_match as (prev_after prev rest k) (drop k rest)
                  (if cap then caps @ [take k rest] else caps))
           (rev [lo..<Suc top]))"

fun rx_search :: "atom list \<Rightarrow> char option \<Rightarrow> string \<Rightarrow> string list option" where
  "rx_search as prev [] = rx_match as prev [] []"
| "rx_search as prev (x # xs) =
     (case rx_match as prev (x # xs) [] of
        Some caps \<Rightarrow> Some caps
      | None \<Rightarrow> rx_search as (Some x) xs)"

definition re_search :: "atom list \<Rightarrow> string \<Rightarrow> string list option" where
  "re_search pat s = rx_search pat None s"

definition re_match :: "atom list \<Rightarrow> string \<Rightarrow> string list option" where
  "re_match pat s = rx_match pat None s []"

section \<open>The Spanish date and time resolver\<close>

text \<open>
  \<^verbatim>\<open>
  def parse_spanish_time(text):
      t = text.lower()
      m = re.search(r"\b(\d{1,2}):(\d{2})\b", t)
      if m:
          h = int(m.group(1)); mi = int(m.group(2))
          if 0 <= h <= 23 and 0 <= mi <= 59:
              return h, mi
      m = re.search(r"a\s+l[ao]s?\s+(\d{1,2})\b", t)
      ampm = None
      if 'de la tarde' in t or 'de la noche' in t or 'pm' in t:
          ampm = 'pm'
      if 'de la manana' (with or without tilde) in t or 'am' in t:
          ampm = ampm or 'am'
      if m:
          h = int(m.group(1)); mi = 0
          if ampm == 'pm' and h < 12: h += 12
          if ampm == 'am' and h == 12: h = 0
          if 0 <= h <= 23:
              return h, mi
      m = re.search(r"\b(\d{1,2})\s*(am|pm)\b", t)
      if m:
          h = int(m.group(1)); mi = 0
          if m.group(2) == 'pm' and h < 12: h += 12
          if m.group(2) == 'am' and h == 12: h = 0
          return h, mi
      return None
  \<close>
\<close>

definition rx_hhmm :: "atom list" where
  "rx_hhmm = [Bnd, Rpt is_digit 1 (Some 2) True, Lit CHR '':'', Rpt is_digit 2 (Some 2) True, Bnd]"

definition rx_a_las :: "atom list" where
  "rx_a_las =
     [Lit CHR ''a'', Rpt is_space 1 None False, Lit CHR ''l'',
      Rpt (\<lambda>c. c = CHR ''a'' \<or> c = CHR ''o'') 1 (Some 1) False,
      Rpt (\<lambda>c. c = CHR ''s'') 0 (Some 1) False,
      Rpt is_space 1 None False, Rpt is_digit 1 (Some 2) True, Bnd]"

definition rx_n_ampm :: "atom list" where
  "rx_n_ampm =
     [Bnd, Rpt is_digit 1 (Some 2) True, Rpt is_space 0 None False, Alts [''am'', ''pm''], Bnd]"

definition manana :: string where
  "manana = ''ma'' @ [CHR 0xF1] @ ''ana''"

definition has_pm_cue :: "string \<Rightarrow> bool" where
  "has_pm_cue t = (py_in ''de la tarde'' t \<or> py_in ''de la noche'' t \<or> py_in ''pm'' t)"

definition has_am_cue :: "string \<Rightarrow> bool" where
  "has_am_cue t = (py_in (''de la '' @ manana) t \<or> py_in ''de la manana'' t \<or> py_in ''am'' t)"

text \<open>The variable \<^verbatim>\<open>ampm\<close>: the pm cue wins when the text has both.\<close>

definition ampm_of :: "string \<Rightarrow> string option" where
  "ampm_of t =
     (let ampm = (if has_pm_cue t then Some ''pm'' else None)
      in if has_am_cue t then (case ampm of None \<Rightarrow> Some ''am'' | Some v \<Rightarrow> Some v) else ampm)"

definition adjust_hour :: "string option \<Rightarrow> int \<Rightarrow> int" where
  "adjust_hour ampm h0 =
     (let h = (if ampm = Some ''pm'' \<and> h0 < 12 then h0 + 12 else h0)
      in if ampm = Some ''am'' \<and> h = 12 then 0 else h)"

definition parse_hhmm :: "string \<Rightarrow> (int \<times> int) option" where
  "parse_hhmm t =
     (case re_search rx_hhmm t of
        Some [g1, g2] \<Rightarrow>
          (let h = py_int g1; mi = py_int g2
           in if 0 \<le> h \<and> h \<le> 23 \<and> 0 \<le> mi \<and> mi \<le> 59 then Some (h, mi) else None)
      | _ \<Rightarrow> None)"

definition parse_a_las :: "string \<Rightarrow> (int \<times> int) option" where
  "parse_a_las t =
     (case re_search rx_a_las t of
        Some [g1] \<Rightarrow>
          (let h = adjust_hour (ampm_of t) (py_int g1)
           in if 0 \<le> h \<and> h \<le> 23 then Some (h, 0) else None)
      | _ \<Rightarrow> None)"

definition parse_n_ampm :: "string \<Rightarrow> (int \<times> int) option" where
  "parse_n_ampm t =
     (case re_search rx_n_ampm t of
        Some [g1, g2] \<Rightarrow> Some (adjust_hour (Some g2) (py_int g1), 0)
      | _ \<Rightarrow> None)"

definition parse_spanish_time :: "string \<Rightarrow> (int \<times> int) option" where
  "parse_spanish_time text =
     (let t = py_lower text
      in case parse_hhmm t of
           Some r \<Rightarrow> Some r
         | None \<Rightarrow>
             (case parse_a_las t of
                Some r \<Rightarrow> Some r
              | None \<Rightarrow> parse_n_ampm t))"

text \<open>
  \<^verbatim>\<open>
  def parse_spanish_date(text):
      if not text: return None
      t = text.lower()
      now = get_tznow().date()
      if 'pasado manana' in t (either spelling): return now + timedelta(days=2)
      if 'manana' in t (either spelling): return now + timedelta(days=1)
      if 'hoy' in t: return now
      weekdays = {'lunes': 0, 'martes': 1, 'miercoles': 2 (either spelling), 'jueves': 3,
                  'viernes': 4, 'sabado': 5 (either spelling), 'domingo': 6}
      for name, idx in weekdays.items():
          if name in t:
              today_idx = now.weekday()
              delta = (idx - today_idx) % 7
              delta = 7 if delta == 0 else delta
              return now + timedelta(days=delta)
      return None
  \<close>
  The current date \<open>now\<close> is a parameter. A dictionary is iterated in insertion order,
  so the table is an association list.
\<close>

definition weekday :: "date \<Rightarrow> int" where
  "weekday d = (d + 6) mod 7"

definition weekdays :: "(string \<times> int) list" where
  "weekdays =
     [(''lunes'', 0), (''martes'', 1), (''mi'' @ [CHR 0xE9] @ ''rcoles'', 2), (''miercoles'', 2),
      (''jueves'', 3), (''viernes'', 4), (''s'' @ [CHR 0xE1] @ ''bado'', 5), (''sabado'', 5),
      (''domingo'', 6)]"

fun weekday_loop :: "date \<Rightarrow> string \<Rightarrow> (string \<times> int) list \<Rightarrow> date option" where
  "weekday_loop now t [] = None"
| "weekday_loop now t ((name, idx) # rest) =
     (if py_in name t
      then (let today_idx = weekday now;
                delta = (idx - today_idx) mod 7;
                delta = (if delta = 0 then 7 else delta)
            in Some (now + delta))
      else weekday_loop now t rest)"

definition parse_spanish_date :: "date \<Rightarrow> string \<Rightarrow> date option" where
  "parse_spanish_date now text =
     (if text = [] then None
      else let t = py_lower text
           in if py_in (''pasado '' @ manana) t \<or> py_in ''pasado manana'' t then Some (now + 2)
              else if py_in manana t \<or> py_in ''manana'' t then Some (now + 1)
              else if py_in ''hoy'' t then Some now
              else weekday_loop now t weekdays)"





section \<open>The slot model\<close>





section \<open>The appointment store\<close>

datatype AppointmentStatus = PENDING | CONFIRMED | COMPLETED | CANCELLED

record appointment =
  user_id :: int
  appointment_date :: datetime
  duration_minutes :: int
  status :: AppointmentStatus

text \<open>
  Both availability functions read the appointments of one calendar day:
  \<^verbatim>\<open>
  day_start = tz.localize(datetime.combine(day, dtime.min))
  day_end = tz.localize(datetime.combine(day, dtime.max))
  appts = db.query(Appointment).filter(
      Appointment.appointment_date >= day_start,
      Appointment.appointment_date <= day_end,
      Appointment.status != AppointmentStatus.CANCELLED).all()
  \<close>
  The table is the list of its rows.
\<close>

definition day_query :: "appointment list \<Rightarrow> date \<Rightarrow> appointment list" where
  "day_query table day =
     (let day_start = combine day dtime_min;
          day_end = combine day dtime_max
      in filter (\<lambda>a. appointment_date a \<ge> day_start \<and> appointment_date a \<le> day_end \<and>
                      status a \<noteq> CANCELLED) table)"

text \<open>
  \<^verbatim>\<open>
  def is_slot_available(start_dt, end_dt):
      start_dt = ensure_tz(start_dt); end_dt = ensure_tz(end_dt)
      day = start_dt.astimezone(tz).date()
      appts = (the query above, for day)
      for a in appts:
          a_start = ensure_tz(a.appointment_date)
          a_end = a_start + timedelta(minutes=a.duration_minutes)
          if start_dt < a_end and end_dt > a_start:
              return False
      return True
  \<close>
\<close>

fun available_loop :: "datetime \<Rightarrow> datetime \<Rightarrow> appointment list \<Rightarrow> bool" where
  "available_loop start_dt end_dt [] = True"
| "available_loop start_dt end_dt (a # appts) =
     (let a_start = appointment_date a;
          a_end = a_start + duration_minutes a
      in if start_dt < a_end \<and> end_dt > a_start then False
         else available_loop start_dt end_dt appts)"

definition is_slot_available :: "appointment list \<Rightarrow> datetime \<Rightarrow> datetime \<Rightarrow> bool" where
  "is_slot_available table start_dt end_dt =
     (let day = date_of start_dt;
          appts = day_query table day
      in available_loop start_dt end_dt appts)"





section \<open>Users, conversations and the booking handlers\<close>

record user =
  id' :: int
  telegram_id :: int
  email :: "string option"

record database =
  users :: "user list"
  appointments :: "appointment list"

datatype state =
    START | HANDLE_MENU | SCHEDULE_APPOINTMENT | SELECT_DATE | SELECT_TIME
  | CONFIRM_APPOINTMENT | HANDLE_FAQ | HANDLE_CONTACT | HANDLE_VOICE | COLLECT_EMAIL

text \<open>The scratch fields of \<^verbatim>\<open>context.user_data\<close>; \<open>None\<close> is an absent key.\<close>

record user_data =
  ud_appointment_date :: "date option"
  ud_appointment_time :: "datetime option"
  await_email :: "bool option"
  current_state :: "state option"

text \<open>
  The messages a handler sends, by kind:
  \<^item> \<open>InvalidEmail\<close>: "El correo no parece valido. Por favor, enviame un correo valido ...";
  \<^item> \<open>UserNotFound\<close>: "No pude encontrar tu usuario. Envia /start para reiniciar." and, in
    \<^verbatim>\<open>save_appointment\<close>, "No se pudo encontrar tu informacion de usuario. ...";
  \<^item> \<open>NoStagedTime\<close>: "No tengo el horario de la cita. Por favor intenta agendar nuevamente."
    and, in \<^verbatim>\<open>save_appointment\<close>, "No se pudo obtener la informacion de la cita. ...";
  \<^item> \<open>SlotUnavailable\<close>: "El horario seleccionado ya no esta disponible. Intenta con otro
    horario.";
  \<^item> \<open>Confirmed t\<close>: "Cita confirmada", with the date and time of \<open>t\<close>;
  \<^item> \<open>AppointmentCancelled\<close>: "Cita cancelada. No se ha agendado ninguna cita. ...";
  \<^item> \<open>AskEmail\<close>: "Antes de confirmar, por favor escribe tu correo electronico ...";
  \<^item> \<open>SaveError\<close>: "Error. No se pudo agendar la cita. Por favor, intentalo de nuevo mas
    tarde o contactanos para asistencia.";
  \<^item> \<open>DateList ds\<close>: "Selecciona una fecha para tu cita", with one button per date of \<open>ds\<close>;
  \<^item> \<open>FreeTextAnswer\<close>: the answer of the intent classifier or of the FAQ scorer to a
    message without a menu keyword;
  \<^item> \<open>FaqCategories\<close>, \<open>ContactInfo\<close>, \<open>About\<close>: the three menu views;
  \<^item> \<open>NotUnderstood\<close>: "No entendi tu solicitud. Por favor, selecciona una opcion del menu.".
\<close>

datatype reply =
    InvalidEmail | UserNotFound | NoStagedTime | SlotUnavailable | Confirmed datetime
  | AppointmentCancelled | AskEmail | SaveError | DateList "date list" | FreeTextAnswer
  | FaqCategories | ContactInfo | About | NotUnderstood

record outcome =
  next_state :: state
  data :: user_data
  db :: database
  replies :: "reply list"

text \<open>
  \<^verbatim>\<open>
  def valid_email(email):
      if not email: return False
      pattern = r"^[A-Za-z0-9._%+-]+@[A-Za-z0-9.-]+\.[A-Za-z]{2,}$"
      return re.match(pattern, email.strip()) is not None
  \<close>
\<close>

definition is_alnum_ascii :: "char \<Rightarrow> bool" where
  "is_alnum_ascii c = (is_upper_alpha c \<or> is_lower_alpha c \<or> is_digit c)"

definition rx_email :: "atom list" where
  "rx_email =
     [Rpt (\<lambda>c. is_alnum_ascii c \<or> c \<in> set ''._%+-'') 1 None False,
      Lit CHR ''@'',
      Rpt (\<lambda>c. is_alnum_ascii c \<or> c \<in> set ''.-'') 1 None False,
      Lit CHR ''.'',
      Rpt (\<lambda>c. is_upper_alpha c \<or> is_lower_alpha c) 2 None False,
      Eos]"

definition valid_email :: "string \<Rightarrow> bool" where
  "valid_email email_text =
     (if email_text = [] then False else re_match rx_email (py_strip email_text) \<noteq> None)"

text \<open>\<^verbatim>\<open>db.query(User).filter(User.telegram_id == uid).first()\<close>\<close>

definition find_user :: "database \<Rightarrow> int \<Rightarrow> user option" where
  "find_user d uid = find (\<lambda>u. telegram_id u = uid) (users d)"

text \<open>\<^verbatim>\<open>user.email = email; db.commit()\<close>: the row of that user is rewritten.\<close>

definition commit_email :: "database \<Rightarrow> user \<Rightarrow> string \<Rightarrow> database" where
  "commit_email d usr email_text =
     d\<lparr>users := map (\<lambda>u. if id' u = id' usr then u\<lparr>email := Some email_text\<rparr> else u) (users d)\<rparr>"

text \<open>\<^verbatim>\<open>db.add(Appointment(user_id=user.id, appointment_date=t, duration_minutes=30,
  status=AppointmentStatus.CONFIRMED)); db.commit()\<close>\<close>

definition commit_appointment :: "database \<Rightarrow> user \<Rightarrow> datetime \<Rightarrow> database" where
  "commit_appointment d usr t =
     d\<lparr>appointments := appointments d @
        [\<lparr>user_id = id' usr, appointment_date = t, duration_minutes = 30, status = CONFIRMED\<rparr>]\<rparr>"

text \<open>
  \<^verbatim>\<open>
  async def handle_email_input(update, context):
      email = (update.message.text or '').strip()
      if not valid_email(email):
          await safe_send(... "El correo no parece valido ...")
          return COLLECT_EMAIL
      db = ApptSession()
      try:
          user = db.query(User).filter(User.telegram_id == update.effective_user.id).first()
          if not user:
              await safe_send(... "No pude encontrar tu usuario ...")
              return HANDLE_MENU
          user.email = email
          db.commit()
          appointment_time = context.user_data.get('appointment_time')
          if not appointment_time:
              await safe_send(... "No tengo el horario de la cita ...")
              return HANDLE_MENU
          if not is_slot_available(appointment_time, appointment_time + timedelta(minutes=30)):
              await safe_send(... "El horario seleccionado ya no esta disponible ...")
              return HANDLE_MENU
          appt = Appointment(...)
          db.add(appt)
          db.commit()
          await safe_send(... "Cita confirmada ...")
          (confirmation e-mails, every failure swallowed)
      finally:
          db.close()
      context.user_data.pop('await_email', None)
      return HANDLE_MENU
  \<close>
\<close>

definition handle_email_input :: "database \<Rightarrow> user_data \<Rightarrow> int \<Rightarrow> string \<Rightarrow> outcome" where
  "handle_email_input d ud uid text =
     (let email_text = py_strip text
      in if \<not> valid_email email_text
         then \<lparr>next_state = COLLECT_EMAIL, data = ud, db = d, replies = [InvalidEmail]\<rparr>
         else (case find_user d uid of
                 None \<Rightarrow> \<lparr>next_state = HANDLE_MENU, data = ud, db = d, replies = [UserNotFound]\<rparr>
               | Some usr \<Rightarrow>
                   (let d1 = commit_email d usr email_text
                    in case ud_appointment_time ud of
                         None \<Rightarrow>
                           \<lparr>next_state = HANDLE_MENU, data = ud, db = d1, replies = [NoStagedTime]\<rparr>
                       | Some appointment_time \<Rightarrow>
                           if \<not> is_slot_available (appointments d1) appointment_time
                                  (appointment_time + 30)
                           then \<lparr>next_state = HANDLE_MENU, data = ud, db = d1,
                                  replies = [SlotUnavailable]\<rparr>
                           else \<lparr>next_state = HANDLE_MENU, data = ud\<lparr>await_email := None\<rparr>,
                                  db = commit_appointment d1 usr appointment_time,
                                  replies = [Confirmed appointment_time]\<rparr>)))"

text \<open>
  \<^verbatim>\<open>
  async def save_appointment(update, context):
      query = update.callback_query
      if query.data == "cancel_appt":
          await query.edit_message_text("Cita cancelada ...")
          return HANDLE_MENU
      user = db.query(User).filter(User.telegram_id == user_id).first()
      if not user:
          await query.edit_message_text("Error ... No se pudo encontrar tu informacion ...")
          return HANDLE_MENU
      appointment_date = context.user_data.get('appointment_date')
      appointment_time = context.user_data.get('appointment_time')
      if not all([appointment_date, appointment_time]):
          await query.edit_message_text("Error ... No se pudo obtener la informacion ...")
          return HANDLE_MENU
      if not user.email:
          context.user_data['await_email'] = True
          await query.edit_message_text("Antes de confirmar, por favor escribe tu correo ...")
          return COLLECT_EMAIL
      try:
          if not is_slot_available(appointment_time, appointment_time + timedelta(minutes=30)):
              raise Exception("El horario seleccionado ya no esta disponible.")
          appointment = Appointment(...)
          db.add(appointment)
          db.commit()
          await query.edit_message_text("Cita confirmada ...")
          (confirmation e-mails, every failure swallowed)
      except Exception as e:
          logger.error(f"Error saving appointment: {e}")
          await query.edit_message_text(
              "Error ... No se pudo agendar la cita. Por favor, intentalo de nuevo mas tarde "
              "o contactanos para asistencia.")
      finally:
          db.close()
      return HANDLE_MENU
  \<close>
  The exception raised on a conflict is caught by the handler's own \<^verbatim>\<open>except\<close>: its text
  goes to the log and the user is sent the general error message.
\<close>

definition falsy :: "string option \<Rightarrow> bool" where
  "falsy v = (v = None \<or> v = Some [])"

definition save_appointment :: "database \<Rightarrow> user_data \<Rightarrow> int \<Rightarrow> string \<Rightarrow> outcome" where
  "save_appointment d ud uid query_data =
     (if query_data = ''cancel_appt''
      then \<lparr>next_state = HANDLE_MENU, data = ud, db = d, replies = [AppointmentCancelled]\<rparr>
      else (case find_user d uid of
              None \<Rightarrow> \<lparr>next_state = HANDLE_MENU, data = ud, db = d, replies = [UserNotFound]\<rparr>
            | Some usr \<Rightarrow>
                (case (ud_appointment_date ud, ud_appointment_time ud) of
                   (Some staged_date, Some appointment_time) \<Rightarrow>
                     if falsy (email usr)
                     then \<lparr>next_state = COLLECT_EMAIL, data = ud\<lparr>await_email := Some True\<rparr>,
                            db = d, replies = [AskEmail]\<rparr>
                     else if \<not> is_slot_available (appointments d) appointment_time
                                 (appointment_time + 30)
                     then \<lparr>next_state = HANDLE_MENU, data = ud, db = d, replies = [SaveError]\<rparr>
                     else \<lparr>next_state = HANDLE_MENU, data = ud,
                            db = commit_appointment d usr appointment_time,
                            replies = [Confirmed appointment_time]\<rparr>
                 | _ \<Rightarrow>
                     \<lparr>next_state = HANDLE_MENU, data = ud, db = d, replies = [NoStagedTime]\<rparr>)))"

text \<open>
  \<^verbatim>\<open>
  async def schedule_appointment(update, context):
      today = get_tznow().date()
      available_dates = [today + timedelta(days=i) for i in range(1, 15)]
      (one button per date) "Selecciona una fecha para tu cita: ..."
      context.user_data['current_state'] = 'SELECT_DATE'
      return SELECT_DATE

  async def handle_menu(update, context):
      text = update.message.text.lower() if update.message and update.message.text else ""
      keywords = ['agendar', 'cita', 'pregunta', 'faq', 'contacto', 'ayuda', 'acerca',
                  'authenology']
      if not any(k in text for k in keywords):
          (pricing, small talk, services, renewal, FAQ or the support message:
           every branch sends its answer and returns HANDLE_MENU)
      if 'agendar' in text or 'cita' in text:
          return await schedule_appointment(update, context)
      elif 'pregunta' in text or 'faq' in text:
          return await show_faq_categories(update, context)
      elif 'contacto' in text or 'ayuda' in text:
          return await show_contact_info(update, context)
      elif 'acerca' in text or 'authenology' in text:
          return await show_about(update, context)
      else:
          await safe_send(... "No entendi tu solicitud ...")
          return HANDLE_MENU
  \<close>
  \<^verbatim>\<open>handle_menu\<close> is the handler of every typed text message, in every state but
  \<^verbatim>\<open>COLLECT_EMAIL\<close>. The answers of the first block are one kind of reply: the block
  changes neither \<^verbatim>\<open>user_data\<close> nor the appointment store.
\<close>

definition schedule_appointment :: "date \<Rightarrow> database \<Rightarrow> user_data \<Rightarrow> outcome" where
  "schedule_appointment today d ud =
     (let available_dates = map (\<lambda>i. today + int i) [1..<15]
      in \<lparr>next_state = SELECT_DATE, data = ud\<lparr>current_state := Some SELECT_DATE\<rparr>, db = d,
           replies = [DateList available_dates]\<rparr>)"

definition keywords' :: "string list" where
  "keywords' = [''agendar'', ''cita'', ''pregunta'', ''faq'', ''contacto'', ''ayuda'', ''acerca'',
               ''authenology'']"

definition handle_menu :: "date \<Rightarrow> database \<Rightarrow> user_data \<Rightarrow> string \<Rightarrow> outcome" where
  "handle_menu today d ud message_text =
     (let text = py_lower message_text
      in if \<not> list_ex (\<lambda>k. py_in k text) keywords'
         then \<lparr>next_state = HANDLE_MENU, data = ud, db = d, replies = [FreeTextAnswer]\<rparr>
         else if py_in ''agendar'' text \<or> py_in ''cita'' text
         then schedule_appointment today d ud
         else if py_in ''pregunta'' text \<or> py_in ''faq'' text
         then \<lparr>next_state = HANDLE_FAQ, data = ud\<lparr>current_state := Some HANDLE_FAQ\<rparr>, db = d,
                replies = [FaqCategories]\<rparr>
         else if py_in ''contacto'' text \<or> py_in ''ayuda'' text
         then \<lparr>next_state = HANDLE_CONTACT, data = ud\<lparr>current_state := Some HANDLE_CONTACT\<rparr>,
                db = d, replies = [ContactInfo]\<rparr>
         else if py_in ''acerca'' text \<or> py_in ''authenology'' text
         then \<lparr>next_state = HANDLE_MENU, data = ud, db = d, replies = [About]\<rparr>
         else \<lparr>next_state = HANDLE_MENU, data = ud, db = d, replies = [NotUnderstood]\<rparr>)"

section \<open>Notions used in the statements\<close>











definition booked_0800 :: appointment where
  "booked_0800 = \<lparr>user_id = 1, appointment_date = combine 739047 480, duration_minutes = 30,
                   status = CONFIRMED\<rparr>"




definition says_pasado_manana :: "string \<Rightarrow> bool" where
  "says_pasado_manana t = (py_in (''pasado '' @ manana) t \<or> py_in ''pasado manana'' t)"

definition says_manana :: "string \<Rightarrow> bool" where
  "says_manana t = (py_in manana t \<or> py_in ''manana'' t)"

definition says_hoy :: "string \<Rightarrow> bool" where
  "says_hoy t = py_in ''hoy'' t"

text \<open>The first entry of the weekday table whose name occurs in the text.\<close>

definition weekday_named :: "string \<Rightarrow> (string \<times> int) option" where
  "weekday_named t = find (\<lambda>(name, idx). py_in name t) weekdays"

definition ana :: user where
  "ana = \<lparr>id' = 1, telegram_id = 7, email = None\<rparr>"

definition staged_0800 :: user_data where
  "staged_0800 = \<lparr>ud_appointment_date = Some 739047, ud_appointment_time = Some (combine 739047 480),
                   await_email = Some True, current_state = Some CONFIRM_APPOINTMENT\<rparr>"

definition taken_0800 :: database where
  "taken_0800 = \<lparr>users = [ana], appointments = [booked_0800\<lparr>user_id := 2\<rparr>]\<rparr>"

definition bea :: user where
  "bea = \<lparr>id' = 3, telegram_id = 9, email = Some ''bea@example.com''\<rparr>"

definition taken_0800_bea :: database where
  "taken_0800_bea = \<lparr>users = [ana, bea], appointments = [booked_0800\<lparr>user_id := 1\<rparr>]\<rparr>"

definition booking_text :: string where
  "booking_text = ''quiero agendar para el viernes a las 2pm''"

definition in_menu :: user_data where
  "in_menu = \<lparr>ud_appointment_date = None, ud_appointment_time = None, await_email = None,
               current_state = Some HANDLE_MENU\<rparr>"

section \<open>Properties of the day's slots\<close>











section \<open>Properties of the available slots\<close>














section \<open>Properties of the slot picker\<close>









section \<open>Properties of the date resolver\<close>

lemma weekday_loop_find:
  "weekday_loop now t ws =
     map_option (\<lambda>(name, idx). now + (if (idx - weekday now) mod 7 = 0 then 7
                                       else (idx - weekday now) mod 7))
       (find (\<lambda>(name, idx). py_in name t) ws)"
  by (induction ws) (auto simp: Let_def)


lemma next_weekday:
  fixes now idx :: int
  assumes "0 \<le> idx" "idx \<le> 6"
  defines "r \<equiv> now + (if (idx - weekday now) mod 7 = 0 then 7 else (idx - weekday now) mod 7)"
  shows "now < r" "r \<le> now + 7" "weekday r = idx"
    and "\<And>r'. now < r' \<Longrightarrow> weekday r' = idx \<Longrightarrow> r \<le> r'"
proof -
  let ?w = "weekday now"
  let ?delta = "if (idx - ?w) mod 7 = 0 then 7 else (idx - ?w) mod 7"
  show lo: "now < r" and hi: "r \<le> now + 7" unfolding r_def by auto
  have d: "?delta mod 7 = (idx - ?w) mod 7" by simp
  have "weekday r = ((now + 6) + ?delta) mod 7"
    by (simp add: weekday_def r_def algebra_simps)
  also have "\<dots> = ((now + 6) mod 7 + ?delta mod 7) mod 7"
    by (simp only: mod_add_eq)
  also have "\<dots> = (?w + (idx - ?w) mod 7) mod 7"
  proof -
    have "(now + 6) mod 7 = ?w" by (simp only: weekday_def)
    then show ?thesis by (simp only: d)
  qed
  also have "\<dots> = (?w + (idx - ?w)) mod 7"
    by (simp only: mod_add_right_eq)
  also have "\<dots> = idx" using assms(1,2) by simp
  finally show w: "weekday r = idx" .
  fix r' assume after: "now < r'" and same: "weekday r' = idx"
  show "r \<le> r'"
  proof (rule ccontr)
    assume "\<not> r \<le> r'"
    then have less: "r' < r" by simp
    from same w have "(r + 6) mod 7 = (r' + 6) mod 7" by (simp add: weekday_def)
    then have "7 dvd (r + 6) - (r' + 6)" by (simp only: mod_eq_dvd_iff)
    then obtain k where k: "r - r' = 7 * k" by (auto simp: dvd_def)
    with less have "0 < k" by simp
    then have "7 \<le> r - r'" using k by simp
    with hi after show False by simp
  qed
qed

lemma py_in_empty: "sub \<noteq> [] \<Longrightarrow> \<not> py_in sub []"
  by simp

lemma nothing_in_empty:
  "\<not> says_pasado_manana []" "\<not> says_manana []" "\<not> says_hoy []" "weekday_named [] = None"
  by (simp_all add: says_pasado_manana_def says_manana_def says_hoy_def weekday_named_def
      manana_def weekdays_def)

lemma parse_spanish_date_cases:
  "parse_spanish_date now text =
     (let t = py_lower text
      in if says_pasado_manana t then Some (now + 2)
         else if says_manana t then Some (now + 1)
         else if says_hoy t then Some now
         else map_option
                (\<lambda>(name, idx). now + (if (idx - weekday now) mod 7 = 0 then 7
                                       else (idx - weekday now) mod 7))
                (weekday_named t))"
proof (cases "text = []")
  case True
  then show ?thesis
    by (simp add: parse_spanish_date_def py_lower_def nothing_in_empty)
next
  case False
  then show ?thesis
    by (simp add: parse_spanish_date_def Let_def weekday_loop_find says_pasado_manana_def
        says_manana_def says_hoy_def weekday_named_def)
qed




section \<open>Properties of the time resolver\<close>









section \<open>Properties of the booking handlers\<close>

lemma find_map_same:
  assumes "\<And>x. P (f x) = P x"
  shows "find P (map f xs) = map_option f (find P xs)"
  using assms by (induction xs) auto

lemma find_user_commit_email:
  assumes "find_user d uid = Some usr"
  shows "find_user (commit_email d usr e) uid = Some (usr\<lparr>email := Some e\<rparr>)"
proof -
  let ?f = "\<lambda>u. if id' u = id' usr then u\<lparr>email := Some e\<rparr> else u"
  have "find (\<lambda>u. telegram_id u = uid) (map ?f (users d)) =
          map_option ?f (find (\<lambda>u. telegram_id u = uid) (users d))"
    by (rule find_map_same) simp
  with assms show ?thesis by (simp add: find_user_def commit_email_def)
qed

lemma appointments_commit_email: "appointments (commit_email d usr e) = appointments d"
  by (simp add: commit_email_def)

text \<open>
  Claim C10. In \<^verbatim>\<open>COLLECT_EMAIL\<close>, when the text is a valid e-mail address, the user has a
  record and the staged slot is no longer available, the address is stored in the user's
  record, no appointment is inserted, the user is told that the slot is no longer available
  and the conversation goes to the menu; when the text is not a valid address, the record,
  the appointment store and the scratch data are unchanged and the state stays
  \<^verbatim>\<open>COLLECT_EMAIL\<close>.
\<close>

theorem email_kept_when_slot_taken:
  "(valid_email (py_strip text) \<and> find_user d uid = Some usr \<and>
    ud_appointment_time ud = Some t \<and> \<not> is_slot_available (appointments d) t (t + 30) \<longrightarrow>
      find_user (db (handle_email_input d ud uid text)) uid =
        Some (usr\<lparr>email := Some (py_strip text)\<rparr>) \<and>
      appointments (db (handle_email_input d ud uid text)) = appointments d \<and>
      next_state (handle_email_input d ud uid text) = HANDLE_MENU \<and>
      replies (handle_email_input d ud uid text) = [SlotUnavailable]) \<and>
   (\<not> valid_email (py_strip text) \<longrightarrow>
      handle_email_input d ud uid text =
        \<lparr>next_state = COLLECT_EMAIL, data = ud, db = d, replies = [InvalidEmail]\<rparr>)"
  by (simp add: handle_email_input_def Let_def find_user_commit_email
      appointments_commit_email)

text \<open>The theorem for a user without e-mail whose staged slot, 2024-06-10 08:00, has been taken
  by someone else: the address is kept and the table of appointments is as before; the text
  "ana" is not an address and changes nothing.\<close>

theorem email_kept_when_slot_taken_witness:
  "valid_email (py_strip '' ana@example.com '') \<and> find_user taken_0800 7 = Some ana \<and>
   \<not> is_slot_available (appointments taken_0800) (combine 739047 480) (combine 739047 480 + 30) \<and>
   find_user (db (handle_email_input taken_0800 staged_0800 7 '' ana@example.com '')) 7 =
     Some (ana\<lparr>email := Some ''ana@example.com''\<rparr>) \<and>
   appointments (db (handle_email_input taken_0800 staged_0800 7 '' ana@example.com '')) =
     appointments taken_0800 \<and>
   \<not> valid_email (py_strip ''ana'') \<and>
   db (handle_email_input taken_0800 staged_0800 7 ''ana'') = taken_0800"
proof -
  have s: "py_strip '' ana@example.com '' = ''ana@example.com''" by code_simp
  have v: "valid_email (py_strip '' ana@example.com '')" by code_simp
  have f: "find_user taken_0800 7 = Some ana" by code_simp
  have a: "\<not> is_slot_available (appointments taken_0800) (combine 739047 480)
      (combine 739047 480 + 30)"
    by code_simp
  have st: "ud_appointment_time staged_0800 = Some (combine 739047 480)"
    by (simp add: staged_0800_def)
  have n: "\<not> valid_email (py_strip ''ana'')" by code_simp
  note t = email_kept_when_slot_taken [of "'' ana@example.com ''" taken_0800 7 ana staged_0800
      "combine 739047 480"]
  note i = email_kept_when_slot_taken [of "''ana''" taken_0800 7 ana staged_0800
      "combine 739047 480"]
  from i n have "db (handle_email_input taken_0800 staged_0800 7 ''ana'') = taken_0800"
    by simp
  with t v f a st s n show ?thesis by simp
qed

section \<open>Properties of the confirmation and of typed booking requests\<close>

lemma save_appointment_conflict:
  assumes "query_data \<noteq> ''cancel_appt''" "find_user d uid = Some usr" "\<not> falsy (email usr)"
    "ud_appointment_date ud = Some day" "ud_appointment_time ud = Some t"
    "\<not> is_slot_available (appointments d) t (t + 30)"
  shows "save_appointment d ud uid query_data =
           \<lparr>next_state = HANDLE_MENU, data = ud, db = d, replies = [SaveError]\<rparr>"
  using assms by (simp add: save_appointment_def)

text \<open>
  Claim C2 at the button confirmation. A user with an e-mail on file confirms the staged slot
  2024-06-10 08:00 when another user's confirmed appointment holds it. The availability is
  checked again and nothing is inserted, but the message sent is the general error message
  of the handler ("No se pudo agendar la cita. Por favor, intentalo de nuevo mas tarde ..."),
  not a message about the conflict; the text written for the conflict only reaches the log.
  On the same conflict the e-mail handler sends the message about the conflict.
\<close>

theorem button_conflict_sends_general_error:
  "\<not> is_slot_available (appointments taken_0800_bea) (combine 739047 480)
       (combine 739047 480 + 30) \<and>
   save_appointment taken_0800_bea staged_0800 9 ''confirm_appt'' =
     \<lparr>next_state = HANDLE_MENU, data = staged_0800, db = taken_0800_bea,
      replies = [SaveError]\<rparr> \<and>
   replies (handle_email_input taken_0800_bea staged_0800 9 ''bea@example.com'') =
     [SlotUnavailable]"
proof (intro conjI)
  show a: "\<not> is_slot_available (appointments taken_0800_bea) (combine 739047 480)
       (combine 739047 480 + 30)"
    by code_simp
  have f: "find_user taken_0800_bea 9 = Some bea" by code_simp
  have e: "\<not> falsy (email bea)" by (simp add: falsy_def bea_def)
  show "save_appointment taken_0800_bea staged_0800 9 ''confirm_appt'' =
     \<lparr>next_state = HANDLE_MENU, data = staged_0800, db = taken_0800_bea,
      replies = [SaveError]\<rparr>"
    by (rule save_appointment_conflict [OF _ f e _ _ a]) (simp_all add: staged_0800_def)
  show "replies (handle_email_input taken_0800_bea staged_0800 9 ''bea@example.com'') =
     [SlotUnavailable]"
    by code_simp
qed

lemma booking_text_date:
  "\<exists>r. parse_spanish_date today booking_text = Some r \<and> today < r \<and> r \<le> today + 7 \<and>
       weekday r = 4 \<and> (\<forall>r'. today < r' \<and> weekday r' = 4 \<longrightarrow> r \<le> r')"
proof -
  have l: "py_lower booking_text = booking_text" by code_simp
  have a: "\<not> says_pasado_manana booking_text" by code_simp
  have b: "\<not> says_manana booking_text" by code_simp
  have c: "\<not> says_hoy booking_text" by code_simp
  have d: "weekday_named booking_text = Some (''viernes'', 4)" by code_simp
  let ?r = "today + (if (4 - weekday today) mod 7 = 0 then 7 else (4 - weekday today) mod 7)"
  have "parse_spanish_date today booking_text = Some ?r"
    by (simp add: parse_spanish_date_cases l a b c d)
  moreover have "today < ?r" "?r \<le> today + 7" "weekday ?r = 4"
    "\<And>r'. today < r' \<Longrightarrow> weekday r' = 4 \<Longrightarrow> ?r \<le> r'"
    using next_weekday [of 4 today] by simp_all
  ultimately show ?thesis by blast
qed

text \<open>
  Claim C3, as amended. The resolver maps the text "quiero agendar para el viernes a las 2pm"
  to the next Friday after today and to 14:00. The handler of typed text does not call the
  resolver: the text contains the keyword "agendar", so for every user, with or without
  e-mail, and whatever the day's bookings, it offers the next 14 dates, stages nothing and
  moves to \<^verbatim>\<open>SELECT_DATE\<close>.
\<close>

theorem typed_booking_text_offers_dates:
  "(\<exists>r. parse_spanish_date today booking_text = Some r \<and> today < r \<and> r \<le> today + 7 \<and>
       weekday r = 4 \<and> (\<forall>r'. today < r' \<and> weekday r' = 4 \<longrightarrow> r \<le> r')) \<and>
   parse_spanish_time booking_text = Some (14, 0) \<and>
   handle_menu today d ud booking_text =
     \<lparr>next_state = SELECT_DATE, data = ud\<lparr>current_state := Some SELECT_DATE\<rparr>, db = d,
      replies = [DateList (map (\<lambda>i. today + int i) [1..<15])]\<rparr>"
proof (intro conjI)
  have l: "py_lower booking_text = booking_text" by code_simp
  have k: "list_ex (\<lambda>k. py_in k booking_text) keywords'" by code_simp
  have a: "py_in ''agendar'' booking_text" by code_simp
  show "handle_menu today d ud booking_text =
     \<lparr>next_state = SELECT_DATE, data = ud\<lparr>current_state := Some SELECT_DATE\<rparr>, db = d,
      replies = [DateList (map (\<lambda>i. today + int i) [1..<15])]\<rparr>"
    by (simp add: handle_menu_def l k a schedule_appointment_def del: upt.simps)
  show "parse_spanish_time booking_text = Some (14, 0)" by code_simp
qed (rule booking_text_date)

theorem typed_booking_text_offers_dates_witness:
  "parse_spanish_date 739047 booking_text = Some 739051 \<and> weekday 739051 = 4 \<and>
   next_state (handle_menu 739047 \<lparr>users = [ana], appointments = []\<rparr> in_menu booking_text)
     = SELECT_DATE"
proof -
  from typed_booking_text_offers_dates [of 739047 "\<lparr>users = [ana], appointments = []\<rparr>" in_menu]
  obtain r where r: "parse_spanish_date 739047 booking_text = Some r" and w: "weekday r = 4"
    and h: "next_state (handle_menu 739047 \<lparr>users = [ana], appointments = []\<rparr> in_menu
              booking_text) = SELECT_DATE"
    by auto
  have "parse_spanish_date 739047 booking_text = Some 739051" by code_simp
  with r have "r = 739051" by simp
  with r w h show ?thesis by simp
qed

text \<open>
  Claim C3 as stated fails: for the user without e-mail, in the menu, on 2024-06-10 with no
  appointment booked, the typed text leads to \<^verbatim>\<open>SELECT_DATE\<close>, not to \<^verbatim>\<open>COLLECT_EMAIL\<close>,
  and no slot is staged.
\<close>

theorem typed_booking_text_counterexample:
  "find_user \<lparr>users = [ana], appointments = []\<rparr> 7 = Some ana \<and> email ana = None \<and>
   next_state (handle_menu 739047 \<lparr>users = [ana], appointments = []\<rparr> in_menu booking_text)
     \<noteq> COLLECT_EMAIL \<and>
   ud_appointment_time
     (data (handle_menu 739047 \<lparr>users = [ana], appointments = []\<rparr> in_menu booking_text)) = None"
  by code_simp

end
